theory Spec2Isabelle
  imports Complex_Main
begin

section \<open>Python values handled by the relay\<close>

text \<open>
  The service moves JSON documents around: \<^verbatim>\<open>json.loads\<close> yields \<^verbatim>\<open>None\<close>, booleans,
  ints, floats, strings, lists and dicts. A dict is kept as an association list in
  insertion order, as Python keeps it. Finite floats are represented by the real number
  they denote; the non-finite literals \<^verbatim>\<open>NaN\<close> and \<^verbatim>\<open>Infinity\<close> are outside the model.
\<close>

datatype pyval =
    PNone
  | PBool bool
  | PInt int
  | PFloat real
  | PStr string
  | PList "pyval list"
  | PDict "(pyval \<times> pyval) list"

type_synonym pydict = "(pyval \<times> pyval) list"

text \<open>The exceptions (all subclasses of \<^verbatim>\<open>Exception\<close>) that the modelled code paths raise.\<close>

datatype exc =
    ConnectionClosed
  | JSONDecodeError
  | TypeError
  | AttributeError
  | RuntimeError
  | OtherException

text \<open>\<^verbatim>\<open>int(x)\<close> on a float truncates towards zero.\<close>

definition py_int :: "real \<Rightarrow> int" where
  "py_int t = (if t < 0 then \<lceil>t\<rceil> else \<lfloor>t\<rfloor>)"

text \<open>\<^verbatim>\<open>bool(v)\<close>, as used by \<^verbatim>\<open>if v:\<close>.\<close>

fun truthy :: "pyval \<Rightarrow> bool" where
  "truthy PNone = False"
| "truthy (PBool b) = b"
| "truthy (PInt i) = (i \<noteq> 0)"
| "truthy (PFloat r) = (r \<noteq> 0)"
| "truthy (PStr s) = (s \<noteq> [])"
| "truthy (PList xs) = (xs \<noteq> [])"
| "truthy (PDict d) = (d \<noteq> [])"

text \<open>Lists and dicts are unhashable; every other value can be a dict key.\<close>

fun hashable :: "pyval \<Rightarrow> bool" where
  "hashable (PList xs) = False"
| "hashable (PDict d) = False"
| "hashable v = True"

text \<open>
  Two keys address the same dict slot when they are equal in Python: \<^verbatim>\<open>True == 1 == 1.0\<close>.
  \<open>key_of\<close> maps a key to the representative of its equality class.
\<close>

fun key_of :: "pyval \<Rightarrow> pyval" where
  "key_of (PBool b) = PInt (if b then 1 else 0)"
| "key_of (PFloat r) = (if r = of_int \<lfloor>r\<rfloor> then PInt \<lfloor>r\<rfloor> else PFloat r)"
| "key_of v = v"

fun dict_get :: "pydict \<Rightarrow> pyval \<Rightarrow> pyval option" where
  "dict_get [] k = None"
| "dict_get ((k', v') # d) k = (if key_of k' = key_of k then Some v' else dict_get d k)"

text \<open>\<^verbatim>\<open>d[k] = v\<close> on a hashable key: an existing slot keeps its key object and its
  position and gets the new value; a new key is appended.\<close>

fun dict_set :: "pydict \<Rightarrow> pyval \<Rightarrow> pyval \<Rightarrow> pydict" where
  "dict_set [] k v = [(k, v)]"
| "dict_set ((k', v') # d) k v =
     (if key_of k' = key_of k then (k', v) # d else (k', v') # dict_set d k v)"

definition py_dict_setitem :: "pydict \<Rightarrow> pyval \<Rightarrow> pyval \<Rightarrow> exc + pydict" where
  "py_dict_setitem d k v = (if hashable k then Inr (dict_set d k v) else Inl TypeError)"

text \<open>Substring test of \<^verbatim>\<open>needle in hay\<close> on two strings.\<close>

fun str_contains :: "string \<Rightarrow> string \<Rightarrow> bool" where
  "str_contains needle [] = (needle = [])"
| "str_contains needle (c # cs) =
     (take (length needle) (c # cs) = needle \<or> str_contains needle cs)"

text \<open>
  \<^verbatim>\<open>k in data\<close> for a string \<open>k\<close>: a key test on a dict, an element test on a list, a
  substring test on a string, and \<^verbatim>\<open>TypeError\<close> on a value that is not a container.
\<close>

fun py_in :: "string \<Rightarrow> pyval \<Rightarrow> exc + bool" where
  "py_in k (PDict d) = Inr (dict_get d (PStr k) \<noteq> None)"
| "py_in k (PList xs) = Inr (PStr k \<in> set xs)"
| "py_in k (PStr s) = Inr (str_contains k s)"
| "py_in k v = Inl TypeError"

text \<open>\<^verbatim>\<open>data[k] = v\<close> for a string \<open>k\<close>: only a dict accepts it.\<close>

fun py_setitem :: "pyval \<Rightarrow> string \<Rightarrow> pyval \<Rightarrow> exc + pyval" where
  "py_setitem (PDict d) k v = Inr (PDict (dict_set d (PStr k) v))"
| "py_setitem data k v = Inl TypeError"

text \<open>\<^verbatim>\<open>data.get(k, default)\<close>: only a dict has the method.\<close>

fun py_get :: "pyval \<Rightarrow> string \<Rightarrow> pyval \<Rightarrow> exc + pyval" where
  "py_get (PDict d) k dflt = Inr (case dict_get d (PStr k) of None \<Rightarrow> dflt | Some v \<Rightarrow> v)"
| "py_get data k dflt = Inl AttributeError"

section \<open>Configuration and global state\<close>

definition TEAM_ID :: string where
  "TEAM_ID = ''sudoers''"

definition MQTT_TOPIC :: string where
  "MQTT_TOPIC = ''vision/'' @ TEAM_ID @ ''/movement''"

definition MQTT_HEARTBEAT_TOPIC :: string where
  "MQTT_HEARTBEAT_TOPIC = ''vision/'' @ TEAM_ID @ ''/heartbeat''"

text \<open>
  The module's globals. \<open>websocket_clients\<close> is a Python set; it is kept as a list
  without repetitions whose order stands for the order in which the set is iterated.
  Python fixes no such order: what is proved about an iteration is proved for every
  list, hence for every order.
\<close>

record 'c state =
  websocket_clients :: "'c list"
  latest_movement_data :: pyval
  latest_heartbeat_data :: pydict

definition initial_state :: "'c state" where
  "initial_state =
     \<lparr>websocket_clients = [], latest_movement_data = PNone, latest_heartbeat_data = []\<rparr>"

text \<open>\<^verbatim>\<open>set.add\<close> and \<^verbatim>\<open>set.discard\<close>.\<close>

definition registry_add :: "'c \<Rightarrow> 'c list \<Rightarrow> 'c list" where
  "registry_add c cs = (if c \<in> set cs then cs else cs @ [c])"

definition registry_discard :: "'c \<Rightarrow> 'c list \<Rightarrow> 'c list" where
  "registry_discard c cs = removeAll c cs"

section \<open>Observable actions\<close>

text \<open>The outcome of one \<^verbatim>\<open>await client.send(...)\<close>: it returns, raises
  \<^verbatim>\<open>ConnectionClosed\<close>, or raises another exception.\<close>

datatype send_result = Sent | SendClosed | SendFailed

text \<open>One constructor per \<^verbatim>\<open>print\<close> statement of the two handlers and the fan-out.\<close>

datatype log_line =
    LogMovement pyval pyval
  | LogHeartbeat pyval pyval
  | LogMqttError exc
  | LogSendError
  | LogClientConnected
  | LogReceived pyval
  | LogInvalidJson string
  | LogMessageError exc
  | LogClientDisconnected
  | LogClientError exc
  | LogCleanedUp

text \<open>
  What a run does, in order. A text handed to \<^verbatim>\<open>send\<close> is represented by the value
  that \<^verbatim>\<open>json.dumps\<close> serialises; \<^verbatim>\<open>json.dumps\<close> does not fail on values built from
  parsed JSON, ints and strings.
\<close>

datatype 'c action =
    Print log_line
  | RegistryAdd 'c
  | RegistryDiscard 'c
  | Send 'c pyval send_result

fun is_print :: "'c action \<Rightarrow> bool" where
  "is_print (Print l) = True"
| "is_print a = False"

definition wire :: "'c action list \<Rightarrow> 'c action list" where
  "wire tr = filter (\<lambda>a. \<not> is_print a) tr"

section \<open>Broadcast fan-out\<close>

text \<open>The \<^verbatim>\<open>for client in websocket_clients\<close> loop of \<^verbatim>\<open>broadcast_to_clients\<close>, run
  without interference from other tasks: the clients still to visit, and the list
  \<open>disconnected\<close> collected so far.\<close>

fun fan_out ::
  "('c \<Rightarrow> send_result) \<Rightarrow> pyval \<Rightarrow> 'c list \<Rightarrow> 'c list \<Rightarrow> 'c list \<times> 'c action list" where
  "fan_out send message [] disconnected = (disconnected, [])"
| "fan_out send message (client # rest) disconnected =
     (case send client of
        Sent \<Rightarrow>
          (let (d, tr) = fan_out send message rest disconnected
           in (d, Send client message Sent # tr))
      | SendClosed \<Rightarrow>
          (let (d, tr) = fan_out send message rest (disconnected @ [client])
           in (d, Send client message SendClosed # tr))
      | SendFailed \<Rightarrow>
          (let (d, tr) = fan_out send message rest (disconnected @ [client])
           in (d, Send client message SendFailed # Print LogSendError # tr)))"

text \<open>The second loop: \<^verbatim>\<open>for client in disconnected: websocket_clients.discard(client)\<close>.\<close>

fun discard_all :: "'c list \<Rightarrow> 'c list \<Rightarrow> 'c list \<times> 'c action list" where
  "discard_all [] cs = (cs, [])"
| "discard_all (client # rest) cs =
     (let (cs', tr) = discard_all rest (registry_discard client cs)
      in (cs', RegistryDiscard client # tr))"

definition broadcast_to_clients ::
  "('c \<Rightarrow> send_result) \<Rightarrow> pyval \<Rightarrow> 'c state \<Rightarrow> 'c state \<times> 'c action list" where
  "broadcast_to_clients send message s =
     (if websocket_clients s \<noteq> [] then
        (let (disconnected, tr1) = fan_out send message (websocket_clients s) [];
             (cs', tr2) = discard_all disconnected (websocket_clients s)
         in (s\<lparr>websocket_clients := cs'\<rparr>, tr1 @ tr2))
      else (s, []))"

text \<open>
  The same function with its suspension points. Every \<^verbatim>\<open>await client.send(...)\<close> hands
  control to other tasks, whose connection handlers add to and discard from the very set
  object the loop iterates. The schedule gives, for each send in turn, what happens to
  the registry while the pass is suspended there (nothing once the schedule is used up).
  One action per suspension is what the model covers; several actions in one suspension
  that leave the size of the set as it was are outside it (the iterator then walks a
  changed hash table, and no size check fails).
\<close>

datatype 'c env_action = Quiet | Connects 'c | Disconnects 'c

fun env_apply :: "'c env_action \<Rightarrow> 'c list \<Rightarrow> 'c list" where
  "env_apply Quiet cs = cs"
| "env_apply (Connects c) cs = registry_add c cs"
| "env_apply (Disconnects c) cs = registry_discard c cs"

fun next_action :: "'c env_action list \<Rightarrow> 'c env_action" where
  "next_action [] = Quiet"
| "next_action (a # sched) = a"

text \<open>
  A set iterator remembers the size of the set at its creation (\<open>used\<close>); each step first
  compares it with the current size and raises \<^verbatim>\<open>RuntimeError\<close> (set changed size during
  iteration) when they differ. The \<^verbatim>\<open>for\<close> statement is outside the \<^verbatim>\<open>try\<close>, so that
  error leaves the function. The result is the exception, the live registry, the list
  \<open>disconnected\<close> and the actions.
\<close>

fun fan_out_live ::
  "('c \<Rightarrow> send_result) \<Rightarrow> pyval \<Rightarrow> nat \<Rightarrow> 'c list \<Rightarrow> 'c env_action list \<Rightarrow> 'c list \<Rightarrow> 'c list
     \<Rightarrow> exc option \<times> 'c list \<times> 'c list \<times> 'c action list" where
  "fan_out_live send message used [] sched live disconnected =
     (if length live \<noteq> used then (Some RuntimeError, live, disconnected, [])
      else (None, live, disconnected, []))"
| "fan_out_live send message used (client # rest) sched live disconnected =
     (if length live \<noteq> used then (Some RuntimeError, live, disconnected, [])
      else
        (let live' = env_apply (next_action sched) live;
             disconnected' = (if send client = Sent then disconnected
                              else disconnected @ [client]);
             (e, live'', d, tr) =
                fan_out_live send message used rest (tl sched) live' disconnected'
         in (e, live'', d,
             Send client message (send client) #
             (if send client = SendFailed then [Print LogSendError] else []) @ tr)))"

definition broadcast_to_clients_interleaved ::
  "('c \<Rightarrow> send_result) \<Rightarrow> pyval \<Rightarrow> 'c env_action list \<Rightarrow> 'c state
     \<Rightarrow> exc option \<times> 'c state \<times> 'c action list" where
  "broadcast_to_clients_interleaved send message sched s =
     (if websocket_clients s \<noteq> [] then
        (case fan_out_live send message (length (websocket_clients s))
                (websocket_clients s) sched (websocket_clients s) [] of
           (Some e, live, disconnected, tr1) \<Rightarrow>
             (Some e, s\<lparr>websocket_clients := live\<rparr>, tr1)
         | (None, live, disconnected, tr1) \<Rightarrow>
             (let (cs', tr2) = discard_all disconnected live
              in (None, s\<lparr>websocket_clients := cs'\<rparr>, tr1 @ tr2)))
      else (None, s, []))"

text \<open>The clients a pass tried to deliver to, in order.\<close>

fun attempted :: "'c action list \<Rightarrow> 'c list" where
  "attempted [] = []"
| "attempted (Send c m r # tr) = c # attempted tr"
| "attempted (a # tr) = attempted tr"

text \<open>The messages handed to \<^verbatim>\<open>send\<close>, in order.\<close>

fun sent_messages :: "'c action list \<Rightarrow> pyval list" where
  "sent_messages [] = []"
| "sent_messages (Send c m r # tr) = m # sent_messages tr"
| "sent_messages (a # tr) = sent_messages tr"

section \<open>Inbound bridge\<close>

record mqtt_msg =
  topic :: string
  payload :: string

text \<open>Lines 49 to 51: \<^verbatim>\<open>if 'timestamp' not in data: data['timestamp'] = int(time.time())\<close>.\<close>

definition add_timestamp :: "real \<Rightarrow> pyval \<Rightarrow> exc + pyval" where
  "add_timestamp now data =
     (case py_in ''timestamp'' data of
        Inl e \<Rightarrow> Inl e
      | Inr present \<Rightarrow>
          if \<not> present then py_setitem data ''timestamp'' (PInt (py_int now))
          else Inr data)"

text \<open>
  Lines 53 to 60: the cache update by topic, with the arguments of the \<^verbatim>\<open>print\<close> that
  follows it. An assignment made before a later expression raises stays made, so the
  state is returned beside the exception.
\<close>

definition store_latest ::
  "string \<Rightarrow> pyval \<Rightarrow> 'c state \<Rightarrow> exc option \<times> 'c state \<times> 'c action list" where
  "store_latest tp data s =
     (if tp = MQTT_TOPIC then
        (let s1 = s\<lparr>latest_movement_data := data\<rparr>
         in case py_get data ''status'' (PStr ''UNKNOWN'') of
              Inl e \<Rightarrow> (Some e, s1, [])
            | Inr st \<Rightarrow>
                (case py_get data ''servo_angle'' (PStr ''N/A'') of
                   Inl e \<Rightarrow> (Some e, s1, [])
                 | Inr angle \<Rightarrow> (None, s1, [Print (LogMovement st angle)])))
      else if tp = MQTT_HEARTBEAT_TOPIC then
        (case py_get data ''node'' (PStr ''unknown'') of
           Inl e \<Rightarrow> (Some e, s, [])
         | Inr node \<Rightarrow>
             (case py_dict_setitem (latest_heartbeat_data s) node data of
                Inl e \<Rightarrow> (Some e, s, [])
              | Inr hb \<Rightarrow>
                  (let s1 = s\<lparr>latest_heartbeat_data := hb\<rparr>
                   in case py_get data ''status'' (PStr ''UNKNOWN'') of
                        Inl e \<Rightarrow> (Some e, s1, [])
                      | Inr st \<Rightarrow> (None, s1, [Print (LogHeartbeat node st)]))))
      else (None, s, []))"

text \<open>The envelope \<^verbatim>\<open>{"type": "mqtt_message", "topic": ..., "data": ...}\<close>.\<close>

definition relay_envelope :: "string \<Rightarrow> pyval \<Rightarrow> pyval" where
  "relay_envelope tp data =
     PDict [(PStr ''type'', PStr ''mqtt_message''), (PStr ''topic'', PStr tp),
            (PStr ''data'', data)]"

text \<open>A field of an envelope, as a client reads it.\<close>

fun envelope_field :: "pyval \<Rightarrow> string \<Rightarrow> pyval option" where
  "envelope_field (PDict d) k = dict_get d (PStr k)"
| "envelope_field v k = None"

text \<open>
  \<^verbatim>\<open>on_mqtt_message\<close>. \<open>loads\<close> stands for \<^verbatim>\<open>json.loads(msg.payload.decode('utf-8'))\<close>
  and is \<open>None\<close> where either call raises; \<open>now\<close> is the reading of \<^verbatim>\<open>time.time()\<close>;
  \<open>send\<close> is the outcome of the send to each client. The \<^verbatim>\<open>except Exception\<close> clause
  prints and returns.
\<close>

definition on_mqtt_message ::
  "(string \<Rightarrow> pyval option) \<Rightarrow> real \<Rightarrow> ('c \<Rightarrow> send_result) \<Rightarrow> mqtt_msg \<Rightarrow> 'c state
     \<Rightarrow> 'c state \<times> 'c action list" where
  "on_mqtt_message loads now send msg s =
     (case loads (payload msg) of
        None \<Rightarrow> (s, [Print (LogMqttError JSONDecodeError)])
      | Some parsed \<Rightarrow>
          (case add_timestamp now parsed of
             Inl e \<Rightarrow> (s, [Print (LogMqttError e)])
           | Inr data \<Rightarrow>
               (case store_latest (topic msg) data s of
                  (Some e, s1, tr1) \<Rightarrow> (s1, tr1 @ [Print (LogMqttError e)])
                | (None, s1, tr1) \<Rightarrow>
                    (let (s2, tr2) =
                           broadcast_to_clients send (relay_envelope (topic msg) data) s1
                     in (s2, tr1 @ tr2)))))"

section \<open>Connection handler\<close>

text \<open>
  What one connection does, as far as the handler can see it: the clock when the welcome
  is built, the outcomes of the three initial sends (read only for the sends that are
  made), the frames received before the connection ends, and how it ends. Each frame
  carries the clock when it is processed and the outcome of the pong send it may cause.
\<close>

record frame =
  frame_text :: string
  frame_time :: real
  pong_result :: send_result

text \<open>
  How \<^verbatim>\<open>async for message in websocket\<close> stops: the iterator swallows a normal close and
  ends the loop; an abnormal close raises \<^verbatim>\<open>ConnectionClosed\<close>; anything else raises
  another exception.
\<close>

datatype recv_end = ClosedOK | ClosedError | RecvFailed

record conn_script =
  welcome_time :: real
  welcome_result :: send_result
  movement_result :: send_result
  heartbeat_result :: send_result
  frames :: "frame list"
  ending :: recv_end

definition send_to :: "'c \<Rightarrow> pyval \<Rightarrow> send_result \<Rightarrow> exc option \<times> 'c action list" where
  "send_to ws message r =
     (case r of
        Sent \<Rightarrow> (None, [Send ws message Sent])
      | SendClosed \<Rightarrow> (Some ConnectionClosed, [Send ws message SendClosed])
      | SendFailed \<Rightarrow> (Some OtherException, [Send ws message SendFailed]))"

definition welcome_message :: "real \<Rightarrow> pyval" where
  "welcome_message now =
     PDict [(PStr ''type'', PStr ''welcome''), (PStr ''team_id'', PStr TEAM_ID),
            (PStr ''timestamp'', PInt (py_int now)),
            (PStr ''message'', PStr (''Connected to '' @ TEAM_ID @ '' team dashboard''))]"

definition pong_response :: "real \<Rightarrow> pyval" where
  "pong_response now = PDict [(PStr ''type'', PStr ''pong''), (PStr ''timestamp'', PInt (py_int now))]"

text \<open>Lines 125 to 150: the welcome and the two cached-state envelopes. The first send
  that raises ends the block.\<close>

definition send_initial :: "conn_script \<Rightarrow> 'c \<Rightarrow> 'c state \<Rightarrow> exc option \<times> 'c action list" where
  "send_initial script ws s =
     (case send_to ws (welcome_message (welcome_time script)) (welcome_result script) of
        (Some e, tr1) \<Rightarrow> (Some e, tr1)
      | (None, tr1) \<Rightarrow>
          (case (if truthy (latest_movement_data s)
                 then send_to ws (relay_envelope MQTT_TOPIC (latest_movement_data s))
                        (movement_result script)
                 else (None, [])) of
             (Some e, tr2) \<Rightarrow> (Some e, tr1 @ tr2)
           | (None, tr2) \<Rightarrow>
               (case (if truthy (PDict (latest_heartbeat_data s))
                      then send_to ws
                             (relay_envelope MQTT_HEARTBEAT_TOPIC (PDict (latest_heartbeat_data s)))
                             (heartbeat_result script)
                      else (None, [])) of
                  (e, tr3) \<Rightarrow> (e, tr1 @ tr2 @ tr3))))"

text \<open>Lines 155 to 164: the body of the inner \<^verbatim>\<open>try\<close>.\<close>

definition frame_body ::
  "(string \<Rightarrow> pyval option) \<Rightarrow> 'c \<Rightarrow> frame \<Rightarrow> exc option \<times> 'c action list" where
  "frame_body loads ws fr =
     (case loads (frame_text fr) of
        None \<Rightarrow> (Some JSONDecodeError, [])
      | Some data \<Rightarrow>
          (case py_get data ''type'' PNone of
             Inl e \<Rightarrow> (Some e, [Print (LogReceived data)])
           | Inr ty \<Rightarrow>
               if ty = PStr ''ping'' then
                 (let (e, tr) = send_to ws (pong_response (frame_time fr)) (pong_result fr)
                  in (e, Print (LogReceived data) # tr))
               else (None, [Print (LogReceived data)])))"

text \<open>The inner \<^verbatim>\<open>try\<close> with its two \<^verbatim>\<open>except\<close> clauses, in their order; the result is
  the exception that leaves the statement.\<close>

definition handle_frame ::
  "(string \<Rightarrow> pyval option) \<Rightarrow> 'c \<Rightarrow> frame \<Rightarrow> exc option \<times> 'c action list" where
  "handle_frame loads ws fr =
     (case frame_body loads ws fr of
        (None, tr) \<Rightarrow> (None, tr)
      | (Some JSONDecodeError, tr) \<Rightarrow> (None, tr @ [Print (LogInvalidJson (frame_text fr))])
      | (Some e, tr) \<Rightarrow> (None, tr @ [Print (LogMessageError e)]))"

fun receive_loop ::
  "(string \<Rightarrow> pyval option) \<Rightarrow> 'c \<Rightarrow> frame list \<Rightarrow> recv_end \<Rightarrow> exc option \<times> 'c action list" where
  "receive_loop loads ws [] fin =
     (case fin of
        ClosedOK \<Rightarrow> (None, [])
      | ClosedError \<Rightarrow> (Some ConnectionClosed, [])
      | RecvFailed \<Rightarrow> (Some OtherException, []))"
| "receive_loop loads ws (fr # rest) fin =
     (case handle_frame loads ws fr of
        (Some e, tr) \<Rightarrow> (Some e, tr)
      | (None, tr) \<Rightarrow>
          (let (e, tr') = receive_loop loads ws rest fin in (e, tr @ tr')))"

text \<open>
  \<^verbatim>\<open>handle_websocket_client\<close>: the add, the outer \<^verbatim>\<open>try\<close> around the initial sends and
  the receive loop, its two \<^verbatim>\<open>except\<close> clauses and the \<^verbatim>\<open>finally\<close>. The first component
  of the result is the exception that leaves the handler.
\<close>

definition handle_websocket_client ::
  "(string \<Rightarrow> pyval option) \<Rightarrow> conn_script \<Rightarrow> 'c \<Rightarrow> 'c state
     \<Rightarrow> exc option \<times> 'c state \<times> 'c action list" where
  "handle_websocket_client loads script ws s =
     (let s1 = s\<lparr>websocket_clients := registry_add ws (websocket_clients s)\<rparr>;
          (e, tr) =
            (case send_initial script ws s1 of
               (Some e, tr1) \<Rightarrow> (Some e, tr1)
             | (None, tr1) \<Rightarrow>
                 (let (e, tr2) = receive_loop loads ws (frames script) (ending script)
                  in (e, tr1 @ tr2)));
          caught =
            (case e of
               None \<Rightarrow> []
             | Some ConnectionClosed \<Rightarrow> [Print LogClientDisconnected]
             | Some e' \<Rightarrow> [Print (LogClientError e')]);
          s2 = s1\<lparr>websocket_clients := registry_discard ws (websocket_clients s1)\<rparr>
      in (None, s2,
          [Print LogClientConnected, RegistryAdd ws] @ tr @ caught @
          [RegistryDiscard ws, Print LogCleanedUp]))"

section \<open>Runs of the service\<close>

text \<open>
  The states the service can be in: it starts with an empty registry and empty caches;
  the bus listener calls \<^verbatim>\<open>on_mqtt_message\<close> once per message; a connection handler adds
  its client when it starts and discards it when it ends.
\<close>

inductive reachable :: "(string \<Rightarrow> pyval option) \<Rightarrow> 'c state \<Rightarrow> bool"
  for loads :: "string \<Rightarrow> pyval option" where
  start: "reachable loads initial_state"
| bus: "reachable loads s \<Longrightarrow> reachable loads (fst (on_mqtt_message loads now send msg s))"
| connect:
    "reachable loads s \<Longrightarrow>
     reachable loads (s\<lparr>websocket_clients := registry_add c (websocket_clients s)\<rparr>)"
| disconnect:
    "reachable loads s \<Longrightarrow>
     reachable loads (s\<lparr>websocket_clients := registry_discard c (websocket_clients s)\<rparr>)"

text \<open>The keys of a dict, up to Python's key equality.\<close>

definition dict_keys :: "pydict \<Rightarrow> pyval list" where
  "dict_keys d = map (\<lambda>kv. key_of (fst kv)) d"

section \<open>The specification's words\<close>

text \<open>
  Timestamp normalisation as the specification words it: a payload without a
  \<^verbatim>\<open>timestamp\<close> field gets one equal to the receive time in whole seconds; a payload
  that carries one is left as it is.
\<close>

definition spec_normalized :: "real \<Rightarrow> pydict \<Rightarrow> pydict" where
  "spec_normalized now d =
     (if dict_get d (PStr ''timestamp'') = None
      then d @ [(PStr ''timestamp'', PInt (py_int now))]
      else d)"

text \<open>The source key of a heartbeat: its \<^verbatim>\<open>node\<close> field, or the literal \<^verbatim>\<open>unknown\<close>.\<close>

definition spec_node :: "pydict \<Rightarrow> pyval" where
  "spec_node d = (case dict_get d (PStr ''node'') of None \<Rightarrow> PStr ''unknown'' | Some n \<Rightarrow> n)"



section \<open>Facts about dicts and timestamps\<close>

text \<open>Reading a dict after a write, and the shape of the write.\<close>

lemma dict_get_set_same: "dict_get (dict_set d k v) k = Some v"
  by (induction d) auto

lemma dict_get_set_other:
  "key_of k' \<noteq> key_of k \<Longrightarrow> dict_get (dict_set d k v) k' = dict_get d k'"
  by (induction d) auto

lemma dict_set_append: "dict_get d k = None \<Longrightarrow> dict_set d k v = d @ [(k, v)]"
  by (induction d) (auto split: if_splits)

lemma dict_keys_set:
  "dict_keys (dict_set d k v) =
     (if key_of k \<in> set (dict_keys d) then dict_keys d else dict_keys d @ [key_of k])"
proof (induction d)
  case Nil
  show ?case by (simp add: dict_keys_def)
next
  case (Cons kv d)
  from Cons show ?case
    by (cases kv) (auto simp: dict_keys_def)
qed

lemma distinct_dict_keys_set:
  "distinct (dict_keys d) \<Longrightarrow> distinct (dict_keys (dict_set d k v))"
  by (simp add: dict_keys_set)

text \<open>On a mapping the code's normalisation is the specification's; whatever the
  normalisation lets through is a non-empty container.\<close>

lemma add_timestamp_dict:
  "add_timestamp now (PDict d) = Inr (PDict (spec_normalized now d))"
  by (simp add: add_timestamp_def spec_normalized_def dict_set_append)

lemma add_timestamp_truthy: "add_timestamp now v = Inr data \<Longrightarrow> truthy data"
proof (cases v)
  case (PDict d)
  assume "add_timestamp now v = Inr data"
  with PDict have data: "data = PDict (spec_normalized now d)"
    by (simp add: add_timestamp_dict)
  have "spec_normalized now d \<noteq> []"
    by (cases d) (auto simp: spec_normalized_def)
  with data show ?thesis by simp
next
  case (PList xs)
  assume "add_timestamp now v = Inr data"
  with PList show ?thesis
    by (cases xs) (auto simp: add_timestamp_def split: if_splits)
next
  case (PStr s)
  assume "add_timestamp now v = Inr data"
  with PStr show ?thesis
    by (cases s) (auto simp: add_timestamp_def split: if_splits)
qed (simp_all add: add_timestamp_def)

section \<open>Facts about the fan-out\<close>

text \<open>The two loops of the pass in closed form.\<close>

lemma fan_out_disconnected:
  "fst (fan_out send m cs disc) = disc @ filter (\<lambda>c. send c \<noteq> Sent) cs"
  by (induction cs arbitrary: disc) (simp_all add: case_prod_unfold Let_def split: send_result.splits)

lemma fan_out_wire:
  "wire (snd (fan_out send m cs disc)) = map (\<lambda>c. Send c m (send c)) cs"
  by (induction cs arbitrary: disc)
     (simp_all add: wire_def case_prod_unfold Let_def split: send_result.splits)

lemma discard_all_registry:
  "fst (discard_all ds cs) = filter (\<lambda>c. c \<notin> set ds) cs"
  by (induction ds arbitrary: cs)
     (auto simp: registry_discard_def removeAll_filter_not_eq case_prod_unfold intro: filter_cong)

lemma discard_all_trace:
  "snd (discard_all ds cs) = map RegistryDiscard ds"
  by (induction ds arbitrary: cs) (simp_all add: case_prod_unfold)

lemma wire_append: "wire (xs @ ys) = wire xs @ wire ys"
  by (simp add: wire_def)

lemma wire_discards: "wire (map RegistryDiscard ds) = map RegistryDiscard ds"
  by (induction ds) (auto simp: wire_def)

lemma topics_differ: "MQTT_TOPIC \<noteq> MQTT_HEARTBEAT_TOPIC"
  by (simp add: MQTT_TOPIC_def MQTT_HEARTBEAT_TOPIC_def)

lemma broadcast_state:
  "fst (broadcast_to_clients send m s) =
     s\<lparr>websocket_clients := filter (\<lambda>c. send c = Sent) (websocket_clients s)\<rparr>"
proof (cases "websocket_clients s = []")
  case True
  then show ?thesis by (simp add: broadcast_to_clients_def)
next
  case False
  have "filter (\<lambda>c. c \<notin> set (filter (\<lambda>c. send c \<noteq> Sent) (websocket_clients s)))
          (websocket_clients s) = filter (\<lambda>c. send c = Sent) (websocket_clients s)"
    by (rule filter_cong) auto
  with False show ?thesis
    using fan_out_disconnected [of send m "websocket_clients s" "[]"]
          discard_all_registry [of "fst (fan_out send m (websocket_clients s) [])" "websocket_clients s"]
    by (simp add: broadcast_to_clients_def case_prod_unfold)
qed

lemma broadcast_wire:
  "wire (snd (broadcast_to_clients send m s)) =
     map (\<lambda>c. Send c m (send c)) (websocket_clients s) @
     map RegistryDiscard (filter (\<lambda>c. send c \<noteq> Sent) (websocket_clients s))"
proof (cases "websocket_clients s = []")
  case True
  then show ?thesis by (simp add: broadcast_to_clients_def wire_def)
next
  case False
  then show ?thesis
    using fan_out_disconnected [of send m "websocket_clients s" "[]"]
          fan_out_wire [of send m "websocket_clients s" "[]"]
          discard_all_trace [of "fst (fan_out send m (websocket_clients s) [])" "websocket_clients s"]
    by (simp add: broadcast_to_clients_def case_prod_unfold wire_append wire_discards)
qed

lemma attempted_wire: "attempted (wire tr) = attempted tr"
  by (induction tr rule: attempted.induct) (simp_all add: wire_def)

lemma attempted_append: "attempted (xs @ ys) = attempted xs @ attempted ys"
  by (induction xs rule: attempted.induct) simp_all

lemma attempted_sends: "attempted (map (\<lambda>c. Send c m (f c)) cs) = cs"
  by (induction cs) simp_all

lemma attempted_discards: "attempted (map RegistryDiscard cs) = []"
  by (induction cs) simp_all

lemma broadcast_attempted:
  "attempted (snd (broadcast_to_clients send m s)) = websocket_clients s"
  using arg_cong [OF broadcast_wire [of send m s], of attempted]
  by (simp add: attempted_wire attempted_append attempted_sends attempted_discards)

text \<open>A registry action of another task either changes nothing or changes the size of
  the set, so the iterator notices every change at its next step.\<close>

lemma env_apply_cases:
  "env_apply a cs = cs \<or> length (env_apply a cs) \<noteq> length cs"
proof (cases a)
  case (Disconnects c)
  show ?thesis
  proof (cases "c \<in> set cs")
    case True
    then have "length (removeAll c cs) < length cs"
      by (induction cs) (auto simp: less_Suc_eq_le intro: le_trans [OF length_removeAll_less_eq])
    with Disconnects show ?thesis by (simp add: registry_discard_def)
  next
    case False
    with Disconnects show ?thesis by (simp add: registry_discard_def)
  qed
qed (auto simp: registry_add_def)

lemma fan_out_live_quiet:
  "\<forall>a \<in> set sched. env_apply a live = live \<Longrightarrow> length live = used \<Longrightarrow>
   fan_out_live send m used pending sched live disc =
     (None, live, fst (fan_out send m pending disc), snd (fan_out send m pending disc))"
proof (induction pending arbitrary: sched disc)
  case Nil
  then show ?case by simp
next
  case (Cons c rest)
  have q: "env_apply (next_action sched) live = live"
    using Cons.prems(1) by (cases sched) auto
  have t: "\<forall>a \<in> set (tl sched). env_apply a live = live"
    using Cons.prems(1) by (cases sched) auto
  show ?case
    using Cons.IH [OF t Cons.prems(2)] Cons.prems(2) q
    by (cases "send c") (simp_all add: Let_def case_prod_unfold)
qed

lemma fan_out_live_changed:
  "k < length pending \<Longrightarrow> k < length sched \<Longrightarrow>
   \<forall>a \<in> set (take k sched). env_apply a live = live \<Longrightarrow> length live = used \<Longrightarrow>
   length (env_apply (sched ! k) live) \<noteq> used \<Longrightarrow>
   fst (fan_out_live send m used pending sched live disc) = Some RuntimeError
   \<and> fst (snd (fan_out_live send m used pending sched live disc)) = env_apply (sched ! k) live
   \<and> attempted (snd (snd (snd (fan_out_live send m used pending sched live disc)))) =
       take (Suc k) pending"
proof (induction k arbitrary: pending sched disc)
  case 0
  then obtain c rest a sched' where p: "pending = c # rest" and s: "sched = a # sched'"
    by (cases pending; cases sched) auto
  from 0 p s show ?case
    by (cases rest) (simp_all add: Let_def case_prod_unfold)
next
  case (Suc k)
  then obtain c rest a sched' where p: "pending = c # rest" and s: "sched = a # sched'"
    by (cases pending; cases sched) auto
  from Suc.prems p s have a: "env_apply a live = live" by simp
  from Suc.prems p s have
    "k < length rest" "k < length sched'"
    "\<forall>a \<in> set (take k sched'). env_apply a live = live"
    "length (env_apply (sched' ! k) live) \<noteq> used"
    by simp_all
  from Suc.IH [OF this(1) this(2) this(3) Suc.prems(4) this(4)] p s a Suc.prems(4)
  show ?case
    by (simp add: Let_def case_prod_unfold)
qed

section \<open>Facts about the inbound bridge\<close>

text \<open>What the handler does with a payload that parses to a mapping, by topic.\<close>

lemma on_mqtt_message_dict:
  assumes "loads (payload msg) = Some (PDict d)"
  shows "on_mqtt_message loads now send msg s =
     (let d' = spec_normalized now d;
          envelope = relay_envelope (topic msg) (PDict d')
      in if topic msg = MQTT_TOPIC then
           (fst (broadcast_to_clients send envelope (s\<lparr>latest_movement_data := PDict d'\<rparr>)),
            Print (LogMovement
                     (case dict_get d' (PStr ''status'') of None \<Rightarrow> PStr ''UNKNOWN'' | Some v \<Rightarrow> v)
                     (case dict_get d' (PStr ''servo_angle'') of None \<Rightarrow> PStr ''N/A'' | Some v \<Rightarrow> v)) #
            snd (broadcast_to_clients send envelope (s\<lparr>latest_movement_data := PDict d'\<rparr>)))
         else if topic msg = MQTT_HEARTBEAT_TOPIC then
           (if hashable (spec_node d') then
              (fst (broadcast_to_clients send envelope
                      (s\<lparr>latest_heartbeat_data :=
                           dict_set (latest_heartbeat_data s) (spec_node d') (PDict d')\<rparr>)),
               Print (LogHeartbeat (spec_node d')
                        (case dict_get d' (PStr ''status'') of None \<Rightarrow> PStr ''UNKNOWN'' | Some v \<Rightarrow> v)) #
               snd (broadcast_to_clients send envelope
                      (s\<lparr>latest_heartbeat_data :=
                           dict_set (latest_heartbeat_data s) (spec_node d') (PDict d')\<rparr>)))
            else (s, [Print (LogMqttError TypeError)]))
         else broadcast_to_clients send envelope s)"
  using assms topics_differ
  by (simp add: on_mqtt_message_def add_timestamp_dict store_latest_def Let_def
        py_dict_setitem_def spec_node_def case_prod_unfold)

lemma dict_get_append:
  "dict_get (d @ [(k', v)]) k =
     (case dict_get d k of
        Some x \<Rightarrow> Some x
      | None \<Rightarrow> if key_of k' = key_of k then Some v else None)"
  by (induction d) auto

lemma spec_normalized_get:
  "dict_get (spec_normalized now d) (PStr k) =
     (if k = ''timestamp''
      then (case dict_get d (PStr ''timestamp'') of
              None \<Rightarrow> Some (PInt (py_int now)) | Some t \<Rightarrow> Some t)
      else dict_get d (PStr k))"
  by (auto simp: spec_normalized_def dict_get_append split: option.splits)

lemma spec_node_normalized: "spec_node (spec_normalized now d) = spec_node d"
  by (simp add: spec_node_def spec_normalized_get)


lemma on_mqtt_message_dict_state:
  assumes "loads (payload msg) = Some (PDict d)"
  shows "fst (on_mqtt_message loads now send msg s) =
     (if topic msg = MQTT_HEARTBEAT_TOPIC \<and> \<not> hashable (spec_node d) then s
      else s\<lparr>websocket_clients := filter (\<lambda>c. send c = Sent) (websocket_clients s),
             latest_movement_data :=
               (if topic msg = MQTT_TOPIC then PDict (spec_normalized now d)
                else latest_movement_data s),
             latest_heartbeat_data :=
               (if topic msg = MQTT_HEARTBEAT_TOPIC
                then dict_set (latest_heartbeat_data s) (spec_node d)
                       (PDict (spec_normalized now d))
                else latest_heartbeat_data s)\<rparr>)"
  using topics_differ
  by (simp add: on_mqtt_message_dict [where loads = loads and msg = msg, OF assms] Let_def
        spec_node_normalized broadcast_state)

lemma on_mqtt_message_dict_wire:
  assumes "loads (payload msg) = Some (PDict d)"
  shows "wire (snd (on_mqtt_message loads now send msg s)) =
     (if topic msg = MQTT_HEARTBEAT_TOPIC \<and> \<not> hashable (spec_node d) then []
      else map (\<lambda>c. Send c (relay_envelope (topic msg) (PDict (spec_normalized now d))) (send c))
             (websocket_clients s) @
           map RegistryDiscard (filter (\<lambda>c. send c \<noteq> Sent) (websocket_clients s)))"
  using topics_differ
  by (simp add: on_mqtt_message_dict [where loads = loads and msg = msg, OF assms] Let_def
        spec_node_normalized broadcast_wire)
     (simp add: wire_def broadcast_wire [unfolded wire_def])

text \<open>Invariants of the caches: a cached primary value is never falsy, and the keys of
  the heartbeat cache are pairwise different.\<close>

lemma store_latest_caches:
  "(latest_movement_data (fst (snd (store_latest tp data s))) = latest_movement_data s
      \<or> latest_movement_data (fst (snd (store_latest tp data s))) = data)
   \<and> (latest_heartbeat_data (fst (snd (store_latest tp data s))) = latest_heartbeat_data s
      \<or> (\<exists>node. latest_heartbeat_data (fst (snd (store_latest tp data s))) =
                  dict_set (latest_heartbeat_data s) node data))"
  by (auto simp: store_latest_def py_dict_setitem_def Let_def split: sum.splits if_splits)

lemma on_mqtt_message_caches:
  "(latest_movement_data (fst (on_mqtt_message loads now send msg s)) = latest_movement_data s
      \<or> truthy (latest_movement_data (fst (on_mqtt_message loads now send msg s))))
   \<and> (latest_heartbeat_data (fst (on_mqtt_message loads now send msg s)) = latest_heartbeat_data s
      \<or> (\<exists>node data. latest_heartbeat_data (fst (on_mqtt_message loads now send msg s)) =
                  dict_set (latest_heartbeat_data s) node data))"
proof (cases "loads (payload msg)")
  case None
  then show ?thesis by (simp add: on_mqtt_message_def)
next
  case (Some parsed)
  show ?thesis
  proof (cases "add_timestamp now parsed")
    case (Inl e)
    with Some show ?thesis by (simp add: on_mqtt_message_def)
  next
    case (Inr data)
    then have t: "truthy data" by (rule add_timestamp_truthy)
    obtain e s1 tr1 where st: "store_latest (topic msg) data s = (e, s1, tr1)"
      by (cases "store_latest (topic msg) data s") auto
    have "fst (on_mqtt_message loads now send msg s) = s1
        \<or> fst (on_mqtt_message loads now send msg s) =
            fst (broadcast_to_clients send (relay_envelope (topic msg) data) s1)"
      using Some Inr st by (cases e) (simp_all add: on_mqtt_message_def case_prod_unfold Let_def)
    then have "latest_movement_data (fst (on_mqtt_message loads now send msg s)) =
                 latest_movement_data s1
             \<and> latest_heartbeat_data (fst (on_mqtt_message loads now send msg s)) =
                 latest_heartbeat_data s1"
      by (auto simp: broadcast_state)
    with store_latest_caches [of "topic msg" data s] st t show ?thesis by auto
  qed
qed

lemma reachable_caches:
  "reachable loads s \<Longrightarrow>
     (latest_movement_data s = PNone \<or> truthy (latest_movement_data s))
     \<and> distinct (dict_keys (latest_heartbeat_data s))"
proof (induction rule: reachable.induct)
  case start
  show ?case by (simp add: initial_state_def dict_keys_def)
next
  case (bus s now send msg)
  with on_mqtt_message_caches [of loads now send msg s] show ?case
    by (auto simp: distinct_dict_keys_set)
next
  case (connect s c)
  then show ?case by simp
next
  case (disconnect s c)
  then show ?case by simp
qed



section \<open>Facts about the connection handler\<close>

text \<open>The inner \<^verbatim>\<open>try\<close> lets nothing out; the handler's body only prints and sends.\<close>

lemma send_to_trace: "snd (send_to ws m r) = [Send ws m r]"
  by (cases r) (simp_all add: send_to_def)

lemma handle_frame_continues: "fst (handle_frame loads ws fr) = None"
  by (simp add: handle_frame_def split: prod.splits option.splits exc.splits)

lemma receive_loop_step:
  "receive_loop loads ws (fr # rest) fin =
     (fst (receive_loop loads ws rest fin),
      snd (handle_frame loads ws fr) @ snd (receive_loop loads ws rest fin))"
  using handle_frame_continues [of loads ws fr]
  by (cases "handle_frame loads ws fr") (simp add: case_prod_unfold Let_def)

lemma frame_body_actions:
  "a \<in> set (snd (frame_body loads ws fr)) \<Longrightarrow> (\<exists>l. a = Print l) \<or> (\<exists>m r. a = Send ws m r)"
  by (auto simp: frame_body_def send_to_trace case_prod_unfold Let_def
           split: option.splits sum.splits if_splits)

lemma handle_frame_actions:
  "a \<in> set (snd (handle_frame loads ws fr)) \<Longrightarrow> (\<exists>l. a = Print l) \<or> (\<exists>m r. a = Send ws m r)"
  using frame_body_actions [of a loads ws fr]
  by (cases "frame_body loads ws fr")
     (auto simp: handle_frame_def split: option.splits exc.splits)

lemma receive_loop_actions:
  "a \<in> set (snd (receive_loop loads ws frs fin)) \<Longrightarrow>
     (\<exists>l. a = Print l) \<or> (\<exists>m r. a = Send ws m r)"
proof (induction frs)
  case Nil
  then show ?case by (cases fin) simp_all
next
  case (Cons fr rest)
  from Cons.prems have
    "a \<in> set (snd (handle_frame loads ws fr)) \<or> a \<in> set (snd (receive_loop loads ws rest fin))"
    by (simp add: receive_loop_step del: receive_loop.simps)
  then show ?case
    using handle_frame_actions [of a loads ws fr] Cons.IH by blast
qed

lemma send_initial_actions:
  "a \<in> set (snd (send_initial script ws s)) \<Longrightarrow> (\<exists>m r. a = Send ws m r)"
  by (cases "welcome_result script"; cases "movement_result script";
      cases "heartbeat_result script")
     (auto simp: send_initial_def send_to_def split: if_splits)

lemma handler_body_no_discard:
  "RegistryDiscard c \<notin> set (snd (send_initial script ws s))"
  "RegistryDiscard c \<notin> set (snd (receive_loop loads ws frs fin))"
  using send_initial_actions [of "RegistryDiscard c" script ws s]
        receive_loop_actions [of "RegistryDiscard c" loads ws frs fin]
  by auto

lemma handler_trace:
  "snd (snd (handle_websocket_client loads script ws s)) =
     [Print LogClientConnected, RegistryAdd ws] @
     snd (send_initial script ws
            (s\<lparr>websocket_clients := registry_add ws (websocket_clients s)\<rparr>)) @
     (if fst (send_initial script ws
            (s\<lparr>websocket_clients := registry_add ws (websocket_clients s)\<rparr>)) = None
      then snd (receive_loop loads ws (frames script) (ending script)) else []) @
     (case (if fst (send_initial script ws
                  (s\<lparr>websocket_clients := registry_add ws (websocket_clients s)\<rparr>)) = None
            then fst (receive_loop loads ws (frames script) (ending script))
            else fst (send_initial script ws
                  (s\<lparr>websocket_clients := registry_add ws (websocket_clients s)\<rparr>))) of
        None \<Rightarrow> []
      | Some ConnectionClosed \<Rightarrow> [Print LogClientDisconnected]
      | Some e \<Rightarrow> [Print (LogClientError e)]) @
     [RegistryDiscard ws, Print LogCleanedUp]"
  by (cases "send_initial script ws
            (s\<lparr>websocket_clients := registry_add ws (websocket_clients s)\<rparr>)";
      cases "receive_loop loads ws (frames script) (ending script)")
     (auto simp: handle_websocket_client_def Let_def split: option.splits)

lemma handler_state:
  "fst (snd (handle_websocket_client loads script ws s)) =
     s\<lparr>websocket_clients := registry_discard ws (websocket_clients s)\<rparr>"
  by (simp add: handle_websocket_client_def Let_def case_prod_unfold registry_add_def
        registry_discard_def)

text \<open>A dict is larger than any value it holds; the receive loop sends only envelopes
  without a topic.\<close>

lemma dict_get_size: "dict_get d k = Some v \<Longrightarrow> size v < size (PDict d)"
  by (induction d) (auto split: if_splits)

lemma dict_not_own_entry: "dict_get d k = Some (PDict d') \<Longrightarrow> d \<noteq> d'"
  using dict_get_size [of d k "PDict d'"] by auto

lemma sent_messages_append: "sent_messages (xs @ ys) = sent_messages xs @ sent_messages ys"
  by (induction xs rule: sent_messages.induct) simp_all

lemma sent_messages_wire: "sent_messages (wire tr) = sent_messages tr"
  by (induction tr rule: sent_messages.induct) (simp_all add: wire_def)

lemma sent_messages_sends: "sent_messages (map (\<lambda>c. Send c m (f c)) cs) = map (\<lambda>c. m) cs"
  by (induction cs) simp_all

lemma sent_messages_discards: "sent_messages (map RegistryDiscard cs) = []"
  by (induction cs) simp_all

lemma frame_body_messages:
  "m \<in> set (sent_messages (snd (frame_body loads ws fr))) \<Longrightarrow> envelope_field m ''topic'' = None"
  by (cases "pong_result fr")
     (auto simp: frame_body_def send_to_def pong_response_def
           split: option.splits sum.splits if_splits)

lemma handle_frame_messages:
  "m \<in> set (sent_messages (snd (handle_frame loads ws fr))) \<Longrightarrow> envelope_field m ''topic'' = None"
  using frame_body_messages [of m loads ws fr]
  by (cases "frame_body loads ws fr")
     (auto simp: handle_frame_def sent_messages_append split: option.splits exc.splits)

lemma receive_loop_messages:
  "m \<in> set (sent_messages (snd (receive_loop loads ws frs fin))) \<Longrightarrow>
     envelope_field m ''topic'' = None"
proof (induction frs)
  case Nil
  then show ?case by (cases fin) simp_all
next
  case (Cons fr rest)
  from Cons.prems have
    "m \<in> set (sent_messages (snd (handle_frame loads ws fr)))
     \<or> m \<in> set (sent_messages (snd (receive_loop loads ws rest fin)))"
    by (simp add: receive_loop_step sent_messages_append del: receive_loop.simps)
  then show ?case
    using handle_frame_messages [of m loads ws fr] Cons.IH by blast
qed

lemma filter_none: "(\<And>x. x \<in> set xs \<Longrightarrow> \<not> P x) \<Longrightarrow> filter P xs = []"
  by (induction xs) auto

lemma send_initial_heartbeat:
  assumes "latest_heartbeat_data s \<noteq> []"
      and "welcome_result script = Sent" and "movement_result script = Sent"
  shows "fst (send_initial script ws s) = None \<longleftrightarrow> heartbeat_result script = Sent"
    and "filter (\<lambda>m. envelope_field m ''topic'' = Some (PStr MQTT_HEARTBEAT_TOPIC))
           (sent_messages (snd (send_initial script ws s))) =
         [relay_envelope MQTT_HEARTBEAT_TOPIC (PDict (latest_heartbeat_data s))]"
  using assms topics_differ
  by (cases "heartbeat_result script";
      simp add: send_initial_def send_to_def welcome_message_def relay_envelope_def)+

section \<open>Broadcast fan-out\<close>

text \<open>
  The pass with no other task touching the registry: it attempts delivery to every
  registered client in turn, whatever the earlier sends did; the clients whose send
  failed are discarded only after the last send; afterwards the registry is the prior
  registry without exactly the failed clients, and the caches are untouched. The pass
  with its suspension points and an empty schedule ends without an exception and with
  that same result.
\<close>

lemma uninterrupted_pass:
  "websocket_clients (fst (broadcast_to_clients send m s)) =
      filter (\<lambda>c. send c = Sent) (websocket_clients s)
   \<and> wire (snd (broadcast_to_clients send m s)) =
      map (\<lambda>c. Send c m (send c)) (websocket_clients s) @
      map RegistryDiscard (filter (\<lambda>c. send c \<noteq> Sent) (websocket_clients s))
   \<and> attempted (snd (broadcast_to_clients send m s)) = websocket_clients s
   \<and> latest_movement_data (fst (broadcast_to_clients send m s)) = latest_movement_data s
   \<and> latest_heartbeat_data (fst (broadcast_to_clients send m s)) = latest_heartbeat_data s
   \<and> broadcast_to_clients_interleaved send m [] s = (None, broadcast_to_clients send m s)"
proof -
  have "broadcast_to_clients_interleaved send m [] s = (None, broadcast_to_clients send m s)"
    using fan_out_live_quiet [of "[]" "websocket_clients s" "length (websocket_clients s)"
            send m "websocket_clients s" "[]"]
    by (simp add: broadcast_to_clients_interleaved_def broadcast_to_clients_def
          case_prod_unfold Let_def)
  then show ?thesis
    by (simp add: broadcast_state broadcast_wire broadcast_attempted)
qed

text \<open>
  The pass with one registry action of another task per suspension. When no action
  changes the registry, the pass is the uninterrupted one. When the first change happens
  during the send to the client at position \<open>k\<close>, the iteration raises
  \<^verbatim>\<open>RuntimeError\<close> at its next step: the clients after position \<open>k\<close> are not
  attempted, the error leaves the function, and the second loop does not run.
\<close>

lemma interleaved_pass:
  "((\<forall>a \<in> set sched. env_apply a (websocket_clients s) = websocket_clients s) \<longrightarrow>
      broadcast_to_clients_interleaved send m sched s = (None, broadcast_to_clients send m s))
   \<and> (k < length (websocket_clients s) \<and> k < length sched
       \<and> (\<forall>a \<in> set (take k sched). env_apply a (websocket_clients s) = websocket_clients s)
       \<and> env_apply (sched ! k) (websocket_clients s) \<noteq> websocket_clients s \<longrightarrow>
      fst (broadcast_to_clients_interleaved send m sched s) = Some RuntimeError
      \<and> attempted (snd (snd (broadcast_to_clients_interleaved send m sched s))) =
          take (Suc k) (websocket_clients s)
      \<and> fst (snd (broadcast_to_clients_interleaved send m sched s)) =
          s\<lparr>websocket_clients := env_apply (sched ! k) (websocket_clients s)\<rparr>)"
proof (intro conjI impI)
  assume q: "\<forall>a \<in> set sched. env_apply a (websocket_clients s) = websocket_clients s"
  show "broadcast_to_clients_interleaved send m sched s = (None, broadcast_to_clients send m s)"
    using fan_out_live_quiet [OF q refl, of send m "websocket_clients s" "[]"]
    by (simp add: broadcast_to_clients_interleaved_def broadcast_to_clients_def case_prod_unfold Let_def)
next
  assume h: "k < length (websocket_clients s) \<and> k < length sched
       \<and> (\<forall>a \<in> set (take k sched). env_apply a (websocket_clients s) = websocket_clients s)
       \<and> env_apply (sched ! k) (websocket_clients s) \<noteq> websocket_clients s"
  then have ne: "websocket_clients s \<noteq> []" by auto
  from h have len: "length (env_apply (sched ! k) (websocket_clients s)) \<noteq> length (websocket_clients s)"
    using env_apply_cases [of "sched ! k" "websocket_clients s"] by simp
  from h have h1: "k < length (websocket_clients s)" and h2: "k < length sched"
    and h3: "\<forall>a \<in> set (take k sched). env_apply a (websocket_clients s) = websocket_clients s"
    by simp_all
  note ch = fan_out_live_changed [OF h1 h2 h3 refl len, of send m "[]"]
  obtain e live d tr where r: "fan_out_live send m (length (websocket_clients s))
      (websocket_clients s) sched (websocket_clients s) [] = (e, live, d, tr)"
    by (cases "fan_out_live send m (length (websocket_clients s))
      (websocket_clients s) sched (websocket_clients s) []") auto
  with ch have e: "e = Some RuntimeError" and live: "live = env_apply (sched ! k) (websocket_clients s)"
    and tr: "attempted tr = take (Suc k) (websocket_clients s)" by simp_all
  from ne r e live tr
  show "fst (broadcast_to_clients_interleaved send m sched s) = Some RuntimeError"
    and "attempted (snd (snd (broadcast_to_clients_interleaved send m sched s))) =
          take (Suc k) (websocket_clients s)"
    and "fst (snd (broadcast_to_clients_interleaved send m sched s)) =
          s\<lparr>websocket_clients := env_apply (sched ! k) (websocket_clients s)\<rparr>"
    by (simp_all add: broadcast_to_clients_interleaved_def)
qed

text \<open>
  Claim C1 says that broadcast attempts delivery to every member even when some
  members' sends fail, removes the failed clients after the pass, and does not raise
  for a single client's failure; the docstring says the same (broadcast to all connected
  clients) and the list \<open>disconnected\<close> is there for it. The code does not do it. With
  clients 1 and 2 registered, the send to client 1 fails because its connection is
  closed, and while the pass is suspended in that send the handler of client 1 reaches
  its \<^verbatim>\<open>finally\<close> clause and discards client 1. The next step of the iteration finds
  the size of the set changed: \<^verbatim>\<open>RuntimeError\<close> leaves the function and client 2 is
  never attempted.
\<close>

theorem broadcast_raises_on_client_failure:
  "broadcast_to_clients_interleaved (\<lambda>c. if c = 1 then SendClosed else Sent) (PStr ''m'')
      [Disconnects 1]
      \<lparr>websocket_clients = [1, 2 :: nat], latest_movement_data = PNone,
        latest_heartbeat_data = []\<rparr> =
     (Some RuntimeError,
      \<lparr>websocket_clients = [2], latest_movement_data = PNone, latest_heartbeat_data = []\<rparr>,
      [Send 1 (PStr ''m'') SendClosed])"
  by (simp add: broadcast_to_clients_interleaved_def registry_discard_def)

text \<open>
  Claim C2 says that the pass iterates a copy of the registry taken at the start of the
  call, so that an add or a remove during the pass cannot change which clients are
  attempted. The code iterates the set itself. With clients 1, 2 and 3 registered and
  every send succeeding, client 3 leaving while the pass is suspended in the send to
  client 1 makes the iteration raise: client 2, connected throughout, is never
  attempted.
\<close>

theorem broadcast_skips_connected_client:
  "broadcast_to_clients_interleaved (\<lambda>c. Sent) (PStr ''m'') [Disconnects 3]
      \<lparr>websocket_clients = [1, 2, 3 :: nat], latest_movement_data = PNone,
        latest_heartbeat_data = []\<rparr> =
     (Some RuntimeError,
      \<lparr>websocket_clients = [1, 2], latest_movement_data = PNone, latest_heartbeat_data = []\<rparr>,
      [Send 1 (PStr ''m'') Sent])"
  by (simp add: broadcast_to_clients_interleaved_def registry_discard_def)

section \<open>Registry\<close>

text \<open>
  Claim C7. Adding a client that is already registered leaves the registry as it is, and
  discarding a client that is not registered leaves it as it is; neither operation has a
  failing result. Doing either twice is the same as doing it once.
\<close>

theorem registry_idempotent:
  "(c \<in> set cs \<longrightarrow> registry_add c cs = cs)
   \<and> (c \<notin> set cs \<longrightarrow> registry_discard c cs = cs)
   \<and> registry_add c (registry_add c cs) = registry_add c cs
   \<and> registry_discard c (registry_discard c cs) = registry_discard c cs
   \<and> set (registry_add c cs) = insert c (set cs)
   \<and> set (registry_discard c cs) = set cs - {c}"
  by (auto simp: registry_add_def registry_discard_def)

theorem registry_idempotent_witness:
  "registry_add (2::nat) [1, 2, 3] = [1, 2, 3] \<and> registry_discard (4::nat) [1, 2, 3] = [1, 2, 3]"
  using registry_idempotent [of "2::nat" "[1, 2, 3]"] registry_idempotent [of "4::nat" "[1, 2, 3]"]
  by simp

section \<open>Inbound bridge: ingestion\<close>



text \<open>
  Claim C4 says that every heartbeat message is stored under its \<^verbatim>\<open>node\<close> field and
  that messages with distinct node values persist independently. A heartbeat whose
  \<^verbatim>\<open>node\<close> is a JSON array is not stored: the dict assignment raises \<^verbatim>\<open>TypeError\<close>
  (unhashable type), the handler's \<^verbatim>\<open>except\<close> clause prints it, and the cache stays
  empty. And a heartbeat with node \<^verbatim>\<open>true\<close> overwrites the entry of node \<^verbatim>\<open>1\<close>, the
  two being equal as dict keys.
\<close>

theorem heartbeat_keying_counterexample:
  "on_mqtt_message (\<lambda>p. Some (PDict [(PStr ''node'', PList [PStr ''pi'', PStr ''cam'']),
                                     (PStr ''status'', PStr ''ONLINE'')]))
      1700000000 (\<lambda>c. Sent)
      \<lparr>topic = MQTT_HEARTBEAT_TOPIC, payload = ''heartbeat''\<rparr>
      \<lparr>websocket_clients = [1 :: nat], latest_movement_data = PNone,
        latest_heartbeat_data = []\<rparr> =
     (\<lparr>websocket_clients = [1 :: nat], latest_movement_data = PNone,
        latest_heartbeat_data = []\<rparr>,
      [Print (LogMqttError TypeError)])
   \<and> latest_heartbeat_data
       (fst (on_mqtt_message
          (\<lambda>p. if p = ''one'' then Some (PDict [(PStr ''node'', PInt 1)])
               else Some (PDict [(PStr ''node'', PBool True)]))
          200 (\<lambda>c. Sent) \<lparr>topic = MQTT_HEARTBEAT_TOPIC, payload = ''true''\<rparr>
          (fst (on_mqtt_message
             (\<lambda>p. if p = ''one'' then Some (PDict [(PStr ''node'', PInt 1)])
                  else Some (PDict [(PStr ''node'', PBool True)]))
             100 (\<lambda>c. Sent) \<lparr>topic = MQTT_HEARTBEAT_TOPIC, payload = ''one''\<rparr>
             \<lparr>websocket_clients = [1 :: nat], latest_movement_data = PNone,
               latest_heartbeat_data = []\<rparr>)))) =
     [(PInt 1, PDict [(PStr ''node'', PBool True), (PStr ''timestamp'', PInt 200)])]"
  by (simp add: on_mqtt_message_def add_timestamp_def store_latest_def py_dict_setitem_def
        topics_differ [symmetric] py_int_def broadcast_to_clients_def)

text \<open>
  Claim C4, as the code has it. For every heartbeat message whose payload parses to a
  mapping, in every reachable state: when its node value (the \<^verbatim>\<open>node\<close> field, or the
  literal \<^verbatim>\<open>unknown\<close> when the field is missing) is hashable, the normalised message is
  stored under that key and the entry of every other key is as before, two node values
  being the same key when Python compares them equal; when the node value is unhashable
  (a JSON array or object) the message is discarded with a log line. The cache never
  holds two entries for one key, and the primary cache is not touched.
\<close>

theorem heartbeat_keying:
  assumes "reachable loads s"
      and "loads (payload msg) = Some (PDict d)"
      and "topic msg = MQTT_HEARTBEAT_TOPIC"
  shows "(hashable (spec_node d) \<longrightarrow>
            dict_get (latest_heartbeat_data (fst (on_mqtt_message loads now send msg s)))
              (spec_node d) = Some (PDict (spec_normalized now d))
          \<and> (\<forall>k. key_of k \<noteq> key_of (spec_node d) \<longrightarrow>
                dict_get (latest_heartbeat_data (fst (on_mqtt_message loads now send msg s))) k =
                dict_get (latest_heartbeat_data s) k))
       \<and> (\<not> hashable (spec_node d) \<longrightarrow>
            on_mqtt_message loads now send msg s = (s, [Print (LogMqttError TypeError)]))
       \<and> distinct (dict_keys (latest_heartbeat_data (fst (on_mqtt_message loads now send msg s))))
       \<and> latest_movement_data (fst (on_mqtt_message loads now send msg s)) =
           latest_movement_data s
       \<and> (dict_get d (PStr ''node'') = None \<longrightarrow> spec_node d = PStr ''unknown'')"
proof -
  have keys:
    "distinct (dict_keys (latest_heartbeat_data (fst (on_mqtt_message loads now send msg s))))"
    using reachable_caches [OF reachable.bus [OF assms(1), of now send msg]] by simp
  have dropped: "\<not> hashable (spec_node d) \<longrightarrow>
      on_mqtt_message loads now send msg s = (s, [Print (LogMqttError TypeError)])"
    using assms(3) topics_differ
    by (simp add: on_mqtt_message_dict [where loads = loads and msg = msg, OF assms(2)]
          Let_def spec_node_normalized)
  from keys dropped show ?thesis
    using assms(3) topics_differ
    by (simp add: on_mqtt_message_dict_state [where loads = loads and msg = msg, OF assms(2)]
          dict_get_set_same dict_get_set_other spec_node_def)
qed

theorem heartbeat_keying_witness:
  "(let loads = (\<lambda>p. if p = ''pi'' then Some (PDict [(PStr ''node'', PStr ''pi'')])
                     else if p = ''pc'' then Some (PDict [(PStr ''status'', PStr ''ONLINE'')])
                     else Some (PDict [(PStr ''node'', PList [PStr ''pi'', PStr ''cam''])]));
        s1 = fst (on_mqtt_message loads 100 (\<lambda>c. Sent)
                    \<lparr>topic = MQTT_HEARTBEAT_TOPIC, payload = ''pi''\<rparr> (initial_state :: nat state));
        s2 = fst (on_mqtt_message loads 200 (\<lambda>c. Sent)
                    \<lparr>topic = MQTT_HEARTBEAT_TOPIC, payload = ''pc''\<rparr> s1);
        s3 = fst (on_mqtt_message loads 300 (\<lambda>c. Sent)
                    \<lparr>topic = MQTT_HEARTBEAT_TOPIC, payload = ''pi''\<rparr> s2);
        s4 = fst (on_mqtt_message loads 400 (\<lambda>c. Sent)
                    \<lparr>topic = MQTT_HEARTBEAT_TOPIC, payload = ''array''\<rparr> s3)
    in dict_get (latest_heartbeat_data s2) (PStr ''pi'') =
         Some (PDict [(PStr ''node'', PStr ''pi''), (PStr ''timestamp'', PInt 100)])
     \<and> dict_get (latest_heartbeat_data s2) (PStr ''unknown'') =
         Some (PDict [(PStr ''status'', PStr ''ONLINE''), (PStr ''timestamp'', PInt 200)])
     \<and> dict_get (latest_heartbeat_data s3) (PStr ''pi'') =
         Some (PDict [(PStr ''node'', PStr ''pi''), (PStr ''timestamp'', PInt 300)])
     \<and> dict_get (latest_heartbeat_data s3) (PStr ''unknown'') =
         Some (PDict [(PStr ''status'', PStr ''ONLINE''), (PStr ''timestamp'', PInt 200)])
     \<and> s4 = s3)"
proof -
  let ?d1 = "[(PStr ''node'', PStr ''pi'')]"
  let ?d2 = "[(PStr ''status'', PStr ''ONLINE'')]"
  let ?d3 = "[(PStr ''node'', PList [PStr ''pi'', PStr ''cam''])]"
  let ?L = "\<lambda>p. if p = ''pi'' then Some (PDict ?d1)
                else if p = ''pc'' then Some (PDict ?d2) else Some (PDict ?d3)"
  let ?m1 = "\<lparr>topic = MQTT_HEARTBEAT_TOPIC, payload = ''pi''\<rparr>"
  let ?m2 = "\<lparr>topic = MQTT_HEARTBEAT_TOPIC, payload = ''pc''\<rparr>"
  let ?m4 = "\<lparr>topic = MQTT_HEARTBEAT_TOPIC, payload = ''array''\<rparr>"
  let ?s1 = "fst (on_mqtt_message ?L 100 (\<lambda>c. Sent) ?m1 (initial_state :: nat state))"
  let ?s2 = "fst (on_mqtt_message ?L 200 (\<lambda>c. Sent) ?m2 ?s1)"
  let ?s3 = "fst (on_mqtt_message ?L 300 (\<lambda>c. Sent) ?m1 ?s2)"
  let ?s4 = "fst (on_mqtt_message ?L 400 (\<lambda>c. Sent) ?m4 ?s3)"
  have r0: "reachable ?L (initial_state :: nat state)" by (rule reachable.start)
  have r1: "reachable ?L ?s1" by (rule reachable.bus [OF r0])
  have r2: "reachable ?L ?s2" by (rule reachable.bus [OF r1])
  have r3: "reachable ?L ?s3" by (rule reachable.bus [OF r2])
  have p1: "?L (payload ?m1) = Some (PDict ?d1)" and p2: "?L (payload ?m2) = Some (PDict ?d2)"
    and p4: "?L (payload ?m4) = Some (PDict ?d3)"
    by simp_all
  have tp: "topic ?m1 = MQTT_HEARTBEAT_TOPIC" "topic ?m2 = MQTT_HEARTBEAT_TOPIC"
    "topic ?m4 = MQTT_HEARTBEAT_TOPIC" by simp_all
  have n1: "spec_node ?d1 = PStr ''pi''" and n2: "spec_node ?d2 = PStr ''unknown''"
    and n3: "spec_node ?d3 = PList [PStr ''pi'', PStr ''cam'']"
    by (simp_all add: spec_node_def)
  have z1: "spec_normalized 100 ?d1 = ?d1 @ [(PStr ''timestamp'', PInt 100)]"
    and z2: "spec_normalized 200 ?d2 = ?d2 @ [(PStr ''timestamp'', PInt 200)]"
    and z3: "spec_normalized 300 ?d1 = ?d1 @ [(PStr ''timestamp'', PInt 300)]"
    by (simp_all add: spec_normalized_def py_int_def)
  note t1 = heartbeat_keying
    [where loads = ?L and msg = ?m1 and d = ?d1 and now = 100 and send = "\<lambda>c. Sent",
     OF r0 p1 tp(1), unfolded n1 z1]
  note t2 = heartbeat_keying
    [where loads = ?L and msg = ?m2 and d = ?d2 and now = 200 and send = "\<lambda>c. Sent",
     OF r1 p2 tp(2), unfolded n2 z2]
  note t3 = heartbeat_keying
    [where loads = ?L and msg = ?m1 and d = ?d1 and now = 300 and send = "\<lambda>c. Sent",
     OF r2 p1 tp(1), unfolded n1 z3]
  note t4 = heartbeat_keying
    [where loads = ?L and msg = ?m4 and d = ?d3 and now = 400 and send = "\<lambda>c. Sent",
     OF r3 p4 tp(3), unfolded n3]
  from t1 have a1: "dict_get (latest_heartbeat_data ?s1) (PStr ''pi'') =
      Some (PDict (?d1 @ [(PStr ''timestamp'', PInt 100)]))"
    by simp
  from t2 have b2: "dict_get (latest_heartbeat_data ?s2) (PStr ''unknown'') =
      Some (PDict (?d2 @ [(PStr ''timestamp'', PInt 200)]))"
    and o2: "\<forall>k. key_of k \<noteq> key_of (PStr ''unknown'') \<longrightarrow>
      dict_get (latest_heartbeat_data ?s2) k = dict_get (latest_heartbeat_data ?s1) k"
    by simp_all
  from t3 have a3: "dict_get (latest_heartbeat_data ?s3) (PStr ''pi'') =
      Some (PDict (?d1 @ [(PStr ''timestamp'', PInt 300)]))"
    and o3: "\<forall>k. key_of k \<noteq> key_of (PStr ''pi'') \<longrightarrow>
      dict_get (latest_heartbeat_data ?s3) k = dict_get (latest_heartbeat_data ?s2) k"
    by simp_all
  from t4 have d4: "?s4 = ?s3" by simp
  from o2 have a2: "dict_get (latest_heartbeat_data ?s2) (PStr ''pi'') =
      dict_get (latest_heartbeat_data ?s1) (PStr ''pi'')"
    by simp
  from o3 have b3: "dict_get (latest_heartbeat_data ?s3) (PStr ''unknown'') =
      dict_get (latest_heartbeat_data ?s2) (PStr ''unknown'')"
    by simp
  from a1 a2 b2 a3 b3 d4 show ?thesis
    unfolding Let_def by simp
qed



text \<open>
  A payload that does parse, but not to a mapping, is neither case. On the primary topic
  a JSON string or list in which \<^verbatim>\<open>'timestamp' in data\<close> holds is assigned to the primary
  cache before the \<^verbatim>\<open>print\<close> that follows raises \<^verbatim>\<open>AttributeError\<close>; nothing is broadcast.
\<close>

lemma non_mapping_payload_reaches_cache:
  "on_mqtt_message (\<lambda>p. Some (PStr ''no timestamp'')) 1700000000 (\<lambda>c. Sent)
      \<lparr>topic = MQTT_TOPIC, payload = ''text''\<rparr>
      \<lparr>websocket_clients = [1 :: nat], latest_movement_data = PNone,
        latest_heartbeat_data = []\<rparr> =
     (\<lparr>websocket_clients = [1 :: nat], latest_movement_data = PStr ''no timestamp'',
        latest_heartbeat_data = []\<rparr>,
      [Print (LogMqttError AttributeError)])"
  by (simp add: on_mqtt_message_def add_timestamp_def store_latest_def)

section \<open>Connection handler: lifecycle\<close>

text \<open>
  Claim C6. For every connection, whatever its sends do, whatever frames it delivers and
  however it ends: no exception leaves the handler; the handler discards its client
  exactly once, as its last action before the final log line; afterwards the client is
  not registered, and the state differs from the prior one only in that.
\<close>

theorem handler_cleanup_on_every_exit:
  "fst (handle_websocket_client loads script ws s) = None
   \<and> fst (snd (handle_websocket_client loads script ws s)) =
       s\<lparr>websocket_clients := registry_discard ws (websocket_clients s)\<rparr>
   \<and> ws \<notin> set (websocket_clients (fst (snd (handle_websocket_client loads script ws s))))
   \<and> count_list (snd (snd (handle_websocket_client loads script ws s))) (RegistryDiscard ws) = 1
   \<and> (\<exists>pre. snd (snd (handle_websocket_client loads script ws s)) =
          pre @ [RegistryDiscard ws, Print LogCleanedUp])"
proof -
  let ?s1 = "s\<lparr>websocket_clients := registry_add ws (websocket_clients s)\<rparr>"
  have none: "fst (handle_websocket_client loads script ws s) = None"
    by (simp add: handle_websocket_client_def Let_def case_prod_unfold)
  have c1: "count_list (snd (send_initial script ws ?s1)) (RegistryDiscard ws) = 0"
    using handler_body_no_discard(1) [of ws script ws ?s1] by (simp add: count_list_0_iff)
  have c2: "count_list (snd (receive_loop loads ws (frames script) (ending script)))
              (RegistryDiscard ws) = 0"
    using handler_body_no_discard(2) [of ws loads ws "frames script" "ending script"]
    by (simp add: count_list_0_iff)
  have cnt: "count_list (snd (snd (handle_websocket_client loads script ws s)))
               (RegistryDiscard ws) = 1"
    unfolding handler_trace using c1 c2
    by (simp split: option.splits exc.splits)
  have pre: "\<exists>pre. snd (snd (handle_websocket_client loads script ws s)) =
          pre @ [RegistryDiscard ws, Print LogCleanedUp]"
    unfolding handler_trace by (metis append.assoc)
  from none cnt pre show ?thesis
    by (simp add: handler_state registry_discard_def)
qed



text \<open>
  Claim C9. For every frame received from a client: no exception leaves the inner
  \<^verbatim>\<open>try\<close>, and the loop goes on with the frames that follow. A frame that fails to parse
  is logged. A mapping whose \<^verbatim>\<open>type\<close> is \<^verbatim>\<open>ping\<close> causes exactly one send, of the pong
  envelope with the time in whole seconds. A mapping with another \<^verbatim>\<open>type\<close>, or none,
  causes no send and no error line. (A parsed value that is not a mapping has no
  \<^verbatim>\<open>get\<close>: it is logged as an error and causes no send.)
\<close>

theorem client_message_handling:
  "fst (handle_frame loads ws fr) = None
   \<and> receive_loop loads ws (fr # rest) fin =
       (fst (receive_loop loads ws rest fin),
        snd (handle_frame loads ws fr) @ snd (receive_loop loads ws rest fin))
   \<and> (loads (frame_text fr) = None \<longrightarrow>
        snd (handle_frame loads ws fr) = [Print (LogInvalidJson (frame_text fr))])
   \<and> (\<forall>d. loads (frame_text fr) = Some (PDict d)
            \<and> dict_get d (PStr ''type'') = Some (PStr ''ping'') \<longrightarrow>
          wire (snd (handle_frame loads ws fr)) =
            [Send ws (PDict [(PStr ''type'', PStr ''pong''),
                             (PStr ''timestamp'', PInt (py_int (frame_time fr)))])
               (pong_result fr)])
   \<and> (\<forall>d. loads (frame_text fr) = Some (PDict d)
            \<and> dict_get d (PStr ''type'') \<noteq> Some (PStr ''ping'') \<longrightarrow>
          snd (handle_frame loads ws fr) = [Print (LogReceived (PDict d))])
   \<and> (\<forall>v. loads (frame_text fr) = Some v \<and> py_get v ''type'' PNone = Inl AttributeError \<longrightarrow>
          snd (handle_frame loads ws fr) =
            [Print (LogReceived v), Print (LogMessageError AttributeError)])"
proof (intro conjI allI impI)
  show "fst (handle_frame loads ws fr) = None" by (rule handle_frame_continues)
  show "receive_loop loads ws (fr # rest) fin =
       (fst (receive_loop loads ws rest fin),
        snd (handle_frame loads ws fr) @ snd (receive_loop loads ws rest fin))"
    by (rule receive_loop_step)
next
  assume "loads (frame_text fr) = None"
  then show "snd (handle_frame loads ws fr) = [Print (LogInvalidJson (frame_text fr))]"
    by (simp add: handle_frame_def frame_body_def)
next
  fix d
  assume "loads (frame_text fr) = Some (PDict d)
            \<and> dict_get d (PStr ''type'') = Some (PStr ''ping'')"
  then show "wire (snd (handle_frame loads ws fr)) =
            [Send ws (PDict [(PStr ''type'', PStr ''pong''),
                             (PStr ''timestamp'', PInt (py_int (frame_time fr)))])
               (pong_result fr)]"
    by (cases "pong_result fr")
       (simp_all add: handle_frame_def frame_body_def send_to_def pong_response_def wire_def)
next
  fix d
  assume "loads (frame_text fr) = Some (PDict d)
            \<and> dict_get d (PStr ''type'') \<noteq> Some (PStr ''ping'')"
  then show "snd (handle_frame loads ws fr) = [Print (LogReceived (PDict d))]"
    by (auto simp: handle_frame_def frame_body_def split: option.splits)
next
  fix v
  assume "loads (frame_text fr) = Some v \<and> py_get v ''type'' PNone = Inl AttributeError"
  then show "snd (handle_frame loads ws fr) =
            [Print (LogReceived v), Print (LogMessageError AttributeError)]"
    by (simp add: handle_frame_def frame_body_def)
qed

theorem client_message_handling_witness:
  "(let loads = (\<lambda>p. if p = ''ping'' then Some (PDict [(PStr ''type'', PStr ''ping'')])
                     else if p = ''hello'' then Some (PDict [(PStr ''type'', PStr ''hello'')])
                     else if p = ''list'' then Some (PList [PInt 1, PInt 2])
                     else None)
    in snd (handle_frame loads (7 :: nat)
              \<lparr>frame_text = ''}{'', frame_time = 1700000001.2, pong_result = Sent\<rparr>) =
         [Print (LogInvalidJson ''}{'')]
     \<and> wire (snd (handle_frame loads (7 :: nat)
              \<lparr>frame_text = ''ping'', frame_time = 1700000001.2, pong_result = Sent\<rparr>)) =
         [Send 7 (PDict [(PStr ''type'', PStr ''pong''), (PStr ''timestamp'', PInt 1700000001)])
            Sent]
     \<and> snd (handle_frame loads (7 :: nat)
              \<lparr>frame_text = ''hello'', frame_time = 1700000001.2, pong_result = Sent\<rparr>) =
         [Print (LogReceived (PDict [(PStr ''type'', PStr ''hello'')]))]
     \<and> snd (handle_frame loads (7 :: nat)
              \<lparr>frame_text = ''list'', frame_time = 1700000001.2, pong_result = Sent\<rparr>) =
         [Print (LogReceived (PList [PInt 1, PInt 2])), Print (LogMessageError AttributeError)])"
proof -
  let ?L = "\<lambda>p. if p = ''ping'' then Some (PDict [(PStr ''type'', PStr ''ping'')])
               else if p = ''hello'' then Some (PDict [(PStr ''type'', PStr ''hello'')])
               else if p = ''list'' then Some (PList [PInt 1, PInt 2])
               else None"
  let ?f1 = "\<lparr>frame_text = ''}{'', frame_time = 1700000001.2, pong_result = Sent\<rparr>"
  let ?f2 = "\<lparr>frame_text = ''ping'', frame_time = 1700000001.2, pong_result = Sent\<rparr>"
  let ?f3 = "\<lparr>frame_text = ''hello'', frame_time = 1700000001.2, pong_result = Sent\<rparr>"
  let ?f4 = "\<lparr>frame_text = ''list'', frame_time = 1700000001.2, pong_result = Sent\<rparr>"
  from client_message_handling [of ?L "7 :: nat" ?f1 "[]" ClosedOK]
  have a: "snd (handle_frame ?L (7 :: nat) ?f1) = [Print (LogInvalidJson ''}{'')]"
    by simp
  from client_message_handling [of ?L "7 :: nat" ?f2 "[]" ClosedOK]
  have b: "wire (snd (handle_frame ?L (7 :: nat) ?f2)) =
     [Send 7 (PDict [(PStr ''type'', PStr ''pong''), (PStr ''timestamp'', PInt 1700000001)]) Sent]"
    by (simp add: py_int_def)
  from client_message_handling [of ?L "7 :: nat" ?f3 "[]" ClosedOK]
  have c: "snd (handle_frame ?L (7 :: nat) ?f3) =
     [Print (LogReceived (PDict [(PStr ''type'', PStr ''hello'')]))]"
    by simp
  from client_message_handling [of ?L "7 :: nat" ?f4 "[]" ClosedOK]
  have d: "snd (handle_frame ?L (7 :: nat) ?f4) =
     [Print (LogReceived (PList [PInt 1, PInt 2])), Print (LogMessageError AttributeError)]"
    by simp
  from a b c d show ?thesis unfolding Let_def by simp
qed

text \<open>
  Claim C10. A client that connects while the heartbeat cache is non-empty, and whose
  earlier initial sends succeed, is sent exactly one envelope with the heartbeat topic
  during the whole run of its handler, and the \<^verbatim>\<open>data\<close> field of that envelope is the
  entire node-keyed cache. The envelope relayed for one heartbeat event carries in
  \<^verbatim>\<open>data\<close> that single normalised message, which the cache then holds under the
  message's node; the cache is never equal to the message it holds.
\<close>

theorem heartbeat_envelope_shapes:
  assumes "latest_heartbeat_data s \<noteq> []"
      and "welcome_result script = Sent" and "movement_result script = Sent"
      and "loads (payload msg) = Some (PDict d)"
      and "topic msg = MQTT_HEARTBEAT_TOPIC"
      and "hashable (spec_node d)"
  shows "filter (\<lambda>m. envelope_field m ''topic'' = Some (PStr MQTT_HEARTBEAT_TOPIC))
           (sent_messages (snd (snd (handle_websocket_client loads script ws s)))) =
         [relay_envelope MQTT_HEARTBEAT_TOPIC (PDict (latest_heartbeat_data s))]
       \<and> envelope_field (relay_envelope MQTT_HEARTBEAT_TOPIC (PDict (latest_heartbeat_data s)))
           ''data'' = Some (PDict (latest_heartbeat_data s))
       \<and> sent_messages (snd (on_mqtt_message loads now send msg s0)) =
           map (\<lambda>c. relay_envelope MQTT_HEARTBEAT_TOPIC (PDict (spec_normalized now d)))
             (websocket_clients s0)
       \<and> envelope_field (relay_envelope MQTT_HEARTBEAT_TOPIC (PDict (spec_normalized now d)))
           ''data'' = Some (PDict (spec_normalized now d))
       \<and> dict_get (latest_heartbeat_data (fst (on_mqtt_message loads now send msg s0)))
           (spec_node d) = Some (PDict (spec_normalized now d))
       \<and> latest_heartbeat_data (fst (on_mqtt_message loads now send msg s0)) \<noteq>
           spec_normalized now d"
proof -
  let ?s1 = "s\<lparr>websocket_clients := registry_add ws (websocket_clients s)\<rparr>"
  let ?hb = "\<lambda>m. envelope_field m ''topic'' = Some (PStr MQTT_HEARTBEAT_TOPIC)"
  have hb1: "latest_heartbeat_data ?s1 \<noteq> []" using assms(1) by simp
  note si = send_initial_heartbeat [OF hb1 assms(2,3), of ws]
  have loop: "filter ?hb (sent_messages (snd (receive_loop loads ws (frames script)
                 (ending script)))) = []"
    by (rule filter_none) (auto dest: receive_loop_messages)
  have caught: "\<And>e. sent_messages (case e of None \<Rightarrow> []
                  | Some ConnectionClosed \<Rightarrow> [Print LogClientDisconnected]
                  | Some e' \<Rightarrow> [Print (LogClientError e')]) = ([] :: pyval list)"
    by (simp split: option.splits exc.splits)
  have snapshot: "filter ?hb (sent_messages (snd (snd (handle_websocket_client loads script ws s)))) =
         [relay_envelope MQTT_HEARTBEAT_TOPIC (PDict (latest_heartbeat_data s))]"
    unfolding handler_trace sent_messages_append caught filter_append
    using si(2) loop by simp
  have relay: "sent_messages (snd (on_mqtt_message loads now send msg s0)) =
           map (\<lambda>c. relay_envelope MQTT_HEARTBEAT_TOPIC (PDict (spec_normalized now d)))
             (websocket_clients s0)"
    using arg_cong [OF on_mqtt_message_dict_wire
            [where loads = loads and msg = msg and now = now and send = send and s = s0,
             OF assms(4)], of sent_messages] assms(5,6)
    by (simp add: sent_messages_wire sent_messages_append sent_messages_sends
          sent_messages_discards)
  have stored: "dict_get (latest_heartbeat_data (fst (on_mqtt_message loads now send msg s0)))
           (spec_node d) = Some (PDict (spec_normalized now d))"
    using assms(5,6) topics_differ
    by (simp add: on_mqtt_message_dict_state [where loads = loads and msg = msg, OF assms(4)]
          dict_get_set_same)
  from snapshot relay stored dict_not_own_entry [OF stored] show ?thesis
    by (simp add: relay_envelope_def)
qed

theorem heartbeat_envelope_shapes_witness:
  "filter (\<lambda>m. envelope_field m ''topic'' = Some (PStr MQTT_HEARTBEAT_TOPIC))
     (sent_messages (snd (snd (handle_websocket_client
        (\<lambda>p. Some (PDict [(PStr ''node'', PStr ''pc''), (PStr ''timestamp'', PInt 6)]))
        \<lparr>welcome_time = 1700000000.7, welcome_result = Sent, movement_result = Sent,
          heartbeat_result = Sent, frames = [], ending = ClosedOK\<rparr>
        (7 :: nat)
        \<lparr>websocket_clients = [], latest_movement_data = PNone,
          latest_heartbeat_data =
            [(PStr ''pi'', PDict [(PStr ''node'', PStr ''pi''), (PStr ''timestamp'', PInt 5)]),
             (PStr ''pc'', PDict [(PStr ''node'', PStr ''pc''), (PStr ''timestamp'', PInt 6)])]\<rparr>)))) =
     [relay_envelope MQTT_HEARTBEAT_TOPIC
        (PDict
          [(PStr ''pi'', PDict [(PStr ''node'', PStr ''pi''), (PStr ''timestamp'', PInt 5)]),
           (PStr ''pc'', PDict [(PStr ''node'', PStr ''pc''), (PStr ''timestamp'', PInt 6)])])]
   \<and> sent_messages (snd (on_mqtt_message
        (\<lambda>p. Some (PDict [(PStr ''node'', PStr ''pc''), (PStr ''timestamp'', PInt 6)]))
        7 (\<lambda>c. Sent) \<lparr>topic = MQTT_HEARTBEAT_TOPIC, payload = ''pc''\<rparr>
        \<lparr>websocket_clients = [1, 2 :: nat], latest_movement_data = PNone,
          latest_heartbeat_data = []\<rparr>)) =
     [relay_envelope MQTT_HEARTBEAT_TOPIC
        (PDict [(PStr ''node'', PStr ''pc''), (PStr ''timestamp'', PInt 6)]),
      relay_envelope MQTT_HEARTBEAT_TOPIC
        (PDict [(PStr ''node'', PStr ''pc''), (PStr ''timestamp'', PInt 6)])]"
proof -
  let ?d = "[(PStr ''node'', PStr ''pc''), (PStr ''timestamp'', PInt 6)]"
  let ?L = "\<lambda>p :: string. Some (PDict ?d)"
  let ?m = "\<lparr>topic = MQTT_HEARTBEAT_TOPIC, payload = ''pc''\<rparr>"
  let ?s = "\<lparr>websocket_clients = [] :: nat list, latest_movement_data = PNone,
          latest_heartbeat_data =
            [(PStr ''pi'', PDict [(PStr ''node'', PStr ''pi''), (PStr ''timestamp'', PInt 5)]),
             (PStr ''pc'', PDict [(PStr ''node'', PStr ''pc''), (PStr ''timestamp'', PInt 6)])]\<rparr>"
  let ?script = "\<lparr>welcome_time = 1700000000.7, welcome_result = Sent, movement_result = Sent,
          heartbeat_result = Sent, frames = [], ending = ClosedOK\<rparr>"
  have h1: "latest_heartbeat_data ?s \<noteq> []" by simp
  have h2: "welcome_result ?script = Sent" "movement_result ?script = Sent" by simp_all
  have p: "?L (payload ?m) = Some (PDict ?d)" by simp
  have tp: "topic ?m = MQTT_HEARTBEAT_TOPIC" by simp
  have h: "hashable (spec_node ?d)" by (simp add: spec_node_def)
  have n: "spec_normalized 7 ?d = ?d" by (simp add: spec_normalized_def)
  note t = heartbeat_envelope_shapes
    [where loads = ?L and msg = ?m and d = ?d and s = ?s and script = ?script and ws = "7 :: nat"
       and now = 7 and send = "\<lambda>c. Sent"
       and ?s0.0 = "\<lparr>websocket_clients = [1, 2 :: nat], latest_movement_data = PNone,
          latest_heartbeat_data = []\<rparr>",
     OF h1 h2 p tp h, unfolded n]
  from t show ?thesis by simp
qed

end
